theory Spec2Isabelle
  imports Complex_Main "HOL-Library.AList" "HOL-Library.Char_ord" "HOL-Library.List_Lexorder"
begin

section \<open>Python values: exceptions, floats, dictionaries\<close>

text \<open>
  The exceptions the two modules can raise. \<open>ValueError\<close> and \<open>TypeError\<close> carry the
  message; the messages of the detector's own \<^verbatim>\<open>raise\<close> statements are the source's,
  those of the interpreter and of the libraries are given in short.
\<close>

datatype exn = TypeError string | ValueError string | IndexError string | KeyError string

text \<open>
  A Python or NumPy float. The arithmetic on finite values is exact (rational): rounding
  is not modelled. The infinities and NaN are the IEEE values the code produces or
  compares with (\<^verbatim>\<open>float('inf')\<close>, the mean of an empty selection).
\<close>

datatype pyfloat = Fin rat | PInf | NInf | NaN

fun flt :: "pyfloat \<Rightarrow> pyfloat \<Rightarrow> bool" where
  "flt NaN _ = False"
| "flt _ NaN = False"
| "flt (Fin a) (Fin b) = (a < b)"
| "flt _ NInf = False"
| "flt NInf _ = True"
| "flt PInf _ = False"
| "flt (Fin a) PInf = True"

definition fgt :: "pyfloat \<Rightarrow> pyfloat \<Rightarrow> bool" where
  "fgt a b = flt b a"

fun fsub :: "pyfloat \<Rightarrow> pyfloat \<Rightarrow> pyfloat" where
  "fsub NaN _ = NaN"
| "fsub _ NaN = NaN"
| "fsub (Fin a) (Fin b) = Fin (a - b)"
| "fsub PInf PInf = NaN"
| "fsub NInf NInf = NaN"
| "fsub PInf _ = PInf"
| "fsub NInf _ = NInf"
| "fsub (Fin a) PInf = NInf"
| "fsub (Fin a) NInf = PInf"

text \<open>Division of NumPy floats: a zero divisor gives an infinity or NaN, not an exception.\<close>

fun fdiv :: "pyfloat \<Rightarrow> pyfloat \<Rightarrow> pyfloat" where
  "fdiv NaN _ = NaN"
| "fdiv _ NaN = NaN"
| "fdiv (Fin a) (Fin b) =
     (if b = 0 then (if a = 0 then NaN else if 0 < a then PInf else NInf) else Fin (a / b))"
| "fdiv (Fin a) _ = Fin 0"
| "fdiv PInf (Fin b) = (if b < 0 then NInf else PInf)"
| "fdiv NInf (Fin b) = (if b < 0 then PInf else NInf)"
| "fdiv _ _ = NaN"


text \<open>
  The built-ins \<^verbatim>\<open>max\<close> and \<^verbatim>\<open>min\<close> on a list: \<^verbatim>\<open>ValueError\<close> on the empty list;
  otherwise the first element is kept until a later one compares greater (smaller).
\<close>

fun py_max :: "pyfloat list \<Rightarrow> exn + pyfloat" where
  "py_max [] = Inl (ValueError ''max() arg is an empty sequence'')"
| "py_max (x # xs) = Inr (foldl (\<lambda>m y. if fgt y m then y else m) x xs)"

fun py_min :: "pyfloat list \<Rightarrow> exn + pyfloat" where
  "py_min [] = Inl (ValueError ''min() arg is an empty sequence'')"
| "py_min (x # xs) = Inr (foldl (\<lambda>m y. if flt y m then y else m) x xs)"

text \<open>
  A Python \<^verbatim>\<open>dict\<close> keeps its keys in insertion order and an assignment to a key that
  is present replaces the value in place: an association list under \<^const>\<open>AList.update\<close>.
\<close>

type_synonym ('k, 'v) dict = "('k \<times> 'v) list"

definition dict_values :: "('k, 'v) dict \<Rightarrow> 'v list" where
  "dict_values d = map snd d"

section \<open>NumPy arrays\<close>

text \<open>\<^verbatim>\<open>np.unique\<close>: the distinct values, sorted.\<close>

definition np_unique :: "'g::linorder list \<Rightarrow> 'g list" where
  "np_unique xs = sort (remdups xs)"

text \<open>\<^verbatim>\<open>arr == value\<close>: the boolean mask.\<close>

definition eq_mask :: "'g list \<Rightarrow> 'g \<Rightarrow> bool list" where
  "eq_mask arr v = map (\<lambda>a. a = v) arr"

text \<open>
  \<^verbatim>\<open>arr[mask]\<close> with a boolean mask: NumPy raises \<^verbatim>\<open>IndexError\<close> when the mask's length
  is not the array's.
\<close>

definition bool_index :: "'a list \<Rightarrow> bool list \<Rightarrow> exn + 'a list" where
  "bool_index arr msk =
     (if length msk \<noteq> length arr
      then Inl (IndexError ''boolean index did not match indexed array'')
      else Inr (map fst (filter snd (zip arr msk))))"

text \<open>\<^verbatim>\<open>arr.mean()\<close>: NaN on an empty array.\<close>

definition np_mean :: "rat list \<Rightarrow> pyfloat" where
  "np_mean xs = (if xs = [] then NaN else Fin (sum_list xs / of_nat (length xs)))"

section \<open>Fairness metrics (fairness/metrics.py)\<close>

text \<open>
  Label and prediction arrays hold integer class values (the \<^verbatim>\<open>0.0\<close> and \<^verbatim>\<open>1.0\<close> of a
  float array are the integers 0 and 1); probabilities are rationals. The protected
  attribute is an array over any ordered type of group values, and \<open>to_str\<close> is Python's
  \<^verbatim>\<open>str\<close> on that type.
\<close>

subsection \<open>demographic\_parity\<close>

record dp_result =
  dp_positive_rates :: "(string, pyfloat) dict"
  dp_parity_ratio :: pyfloat
  dp_violation :: pyfloat
  dp_is_fair :: bool

text \<open>The \<^verbatim>\<open>for group in groups\<close> loop, filling \<^verbatim>\<open>positive_rates\<close>.\<close>

fun dp_loop ::
  "('g \<Rightarrow> string) \<Rightarrow> int list \<Rightarrow> 'g list \<Rightarrow> 'g list \<Rightarrow> (string, pyfloat) dict
     \<Rightarrow> exn + (string, pyfloat) dict" where
  "dp_loop to_str y_pred protected_attr [] positive_rates = Inr positive_rates"
| "dp_loop to_str y_pred protected_attr (grp # groups) positive_rates =
     (case bool_index y_pred (eq_mask protected_attr grp) of
        Inl e \<Rightarrow> Inl e
      | Inr sel \<Rightarrow>
          dp_loop to_str y_pred protected_attr groups
            (AList.update (to_str grp) (np_mean (map of_int sel)) positive_rates))"

definition demographic_parity ::
  "('g::linorder \<Rightarrow> string) \<Rightarrow> int list \<Rightarrow> 'g list \<Rightarrow> exn + dp_result" where
  "demographic_parity to_str y_pred protected_attr =
     (case dp_loop to_str y_pred protected_attr (np_unique protected_attr) [] of
        Inl e \<Rightarrow> Inl e
      | Inr positive_rates \<Rightarrow>
          (let rates = dict_values positive_rates in
           case py_max rates of
             Inl e \<Rightarrow> Inl e
           | Inr max_rate \<Rightarrow>
               (case py_min rates of
                  Inl e \<Rightarrow> Inl e
                | Inr min_rate \<Rightarrow>
                    Inr \<lparr> dp_positive_rates = positive_rates,
                          dp_parity_ratio =
                            (if fgt min_rate (Fin 0) then fdiv max_rate min_rate else PInf),
                          dp_violation = fsub max_rate min_rate,
                          dp_is_fair = flt (fsub max_rate min_rate) (Fin (5 / 100)) \<rparr>)))"

subsection \<open>Confusion statistics\<close>

text \<open>
  scikit-learn's \<^verbatim>\<open>confusion_matrix(y_true, y_pred)\<close> without a \<^verbatim>\<open>labels\<close> argument: the
  labels are the sorted distinct values that occur in either array, and entry \<open>(i, j)\<close>
  counts the samples whose true label is the \<open>i\<close>-th and whose predicted label is the
  \<open>j\<close>-th label. The matrix is square of the number of labels that occur: one row
  when a single value occurs.
\<close>

definition confusion_matrix :: "int list \<Rightarrow> int list \<Rightarrow> exn + nat list list" where
  "confusion_matrix y_true y_pred =
     (if length y_true \<noteq> length y_pred
      then Inl (ValueError ''Found input variables with inconsistent numbers of samples'')
      else
        (let labels = np_unique (y_true @ y_pred) in
         if labels = [] then Inl (ValueError ''labels should contain at least one label'')
         else Inr (map (\<lambda>t. map (\<lambda>p. length (filter (\<lambda>s. s = (t, p)) (zip y_true y_pred)))
                                  labels) labels)))"

text \<open>\<^verbatim>\<open>.ravel()\<close>: the rows one after the other.\<close>

definition ravel :: "nat list list \<Rightarrow> nat list" where
  "ravel m = concat m"

text \<open>
  The tuple assignment \<^verbatim>\<open>tn, fp, fn, tp = ...\<close>: \<^verbatim>\<open>ValueError\<close> unless the right-hand
  side has exactly four elements.
\<close>

fun unpack4 :: "nat list \<Rightarrow> exn + nat \<times> nat \<times> nat \<times> nat" where
  "unpack4 [a, b, c, d] = Inr (a, b, c, d)"
| "unpack4 xs =
     Inl (ValueError (if length xs < 4 then ''not enough values to unpack (expected 4)''
                      else ''too many values to unpack (expected 4)''))"

definition confusion_counts :: "int list \<Rightarrow> int list \<Rightarrow> exn + nat \<times> nat \<times> nat \<times> nat" where
  "confusion_counts y_true y_pred =
     (case confusion_matrix y_true y_pred of
        Inl e \<Rightarrow> Inl e
      | Inr m \<Rightarrow> unpack4 (ravel m))"

text \<open>\<^verbatim>\<open>float(a / (a + b) if (a + b) > 0 else 0)\<close>, the form of both derived rates.\<close>

definition rate :: "nat \<Rightarrow> nat \<Rightarrow> pyfloat" where
  "rate a b = (if a + b > 0 then Fin (of_nat a / of_nat (a + b)) else Fin 0)"

subsection \<open>equalized\_odds\<close>

record group_metric =
  gm_tpr :: pyfloat
  gm_fpr :: pyfloat
  gm_tn :: nat
  gm_fp :: nat
  gm_fn :: nat
  gm_tp :: nat

record eodds_result =
  eodds_group_metrics :: "(string, group_metric) dict"
  eodds_tpr_violation :: pyfloat
  eodds_fpr_violation :: pyfloat
  eodds_max_tpr_violation :: pyfloat
  eodds_max_fpr_violation :: pyfloat
  eodds_is_fair :: bool

fun eodds_loop ::
  "('g \<Rightarrow> string) \<Rightarrow> int list \<Rightarrow> int list \<Rightarrow> 'g list \<Rightarrow> 'g list
     \<Rightarrow> (string, group_metric) dict \<Rightarrow> exn + (string, group_metric) dict" where
  "eodds_loop to_str y_true y_pred protected_attr [] group_metrics = Inr group_metrics"
| "eodds_loop to_str y_true y_pred protected_attr (grp # groups) group_metrics =
     (case bool_index y_true (eq_mask protected_attr grp) of
        Inl e \<Rightarrow> Inl e
      | Inr group_y_true \<Rightarrow>
          (case bool_index y_pred (eq_mask protected_attr grp) of
             Inl e \<Rightarrow> Inl e
           | Inr group_y_pred \<Rightarrow>
               (case confusion_counts group_y_true group_y_pred of
                  Inl e \<Rightarrow> Inl e
                | Inr (tn, fp, fn, tp) \<Rightarrow>
                    eodds_loop to_str y_true y_pred protected_attr groups
                      (AList.update (to_str grp)
                         \<lparr> gm_tpr = rate tp fn, gm_fpr = rate fp tn,
                           gm_tn = tn, gm_fp = fp, gm_fn = fn, gm_tp = tp \<rparr>
                         group_metrics))))"

definition equalized_odds ::
  "('g::linorder \<Rightarrow> string) \<Rightarrow> int list \<Rightarrow> int list \<Rightarrow> 'g list \<Rightarrow> exn + eodds_result" where
  "equalized_odds to_str y_true y_pred protected_attr =
     (case eodds_loop to_str y_true y_pred protected_attr (np_unique protected_attr) [] of
        Inl e \<Rightarrow> Inl e
      | Inr group_metrics \<Rightarrow>
          (let tprs = map gm_tpr (dict_values group_metrics);
               fprs = map gm_fpr (dict_values group_metrics) in
           case py_max tprs of Inl e \<Rightarrow> Inl e | Inr max_tpr \<Rightarrow>
           (case py_min tprs of Inl e \<Rightarrow> Inl e | Inr min_tpr \<Rightarrow>
           (case py_max fprs of Inl e \<Rightarrow> Inl e | Inr max_fpr \<Rightarrow>
           (case py_min fprs of Inl e \<Rightarrow> Inl e | Inr min_fpr \<Rightarrow>
              (let tpr_violation = fsub max_tpr min_tpr;
                   fpr_violation = fsub max_fpr min_fpr in
               Inr \<lparr> eodds_group_metrics = group_metrics,
                     eodds_tpr_violation = tpr_violation,
                     eodds_fpr_violation = fpr_violation,
                     eodds_max_tpr_violation = tpr_violation,
                     eodds_max_fpr_violation = fpr_violation,
                     eodds_is_fair =
                       (flt tpr_violation (Fin (5 / 100)) \<and>
                        flt fpr_violation (Fin (5 / 100))) \<rparr>))))))"

subsection \<open>equal\_opportunity\<close>

record eopp_result =
  eopp_tprs :: "(string, pyfloat) dict"
  eopp_violation :: pyfloat
  eopp_is_fair :: bool

fun eopp_loop ::
  "('g \<Rightarrow> string) \<Rightarrow> int list \<Rightarrow> int list \<Rightarrow> 'g list \<Rightarrow> 'g list
     \<Rightarrow> (string, pyfloat) dict \<Rightarrow> exn + (string, pyfloat) dict" where
  "eopp_loop to_str y_true y_pred protected_attr [] tprs = Inr tprs"
| "eopp_loop to_str y_true y_pred protected_attr (grp # groups) tprs =
     (case bool_index y_true (eq_mask protected_attr grp) of
        Inl e \<Rightarrow> Inl e
      | Inr group_y_true \<Rightarrow>
          (case bool_index y_pred (eq_mask protected_attr grp) of
             Inl e \<Rightarrow> Inl e
           | Inr group_y_pred \<Rightarrow>
               (case confusion_counts group_y_true group_y_pred of
                  Inl e \<Rightarrow> Inl e
                | Inr (tn, fp, fn, tp) \<Rightarrow>
                    eopp_loop to_str y_true y_pred protected_attr groups
                      (AList.update (to_str grp) (rate tp fn) tprs))))"

definition equal_opportunity ::
  "('g::linorder \<Rightarrow> string) \<Rightarrow> int list \<Rightarrow> int list \<Rightarrow> 'g list \<Rightarrow> exn + eopp_result" where
  "equal_opportunity to_str y_true y_pred protected_attr =
     (case eopp_loop to_str y_true y_pred protected_attr (np_unique protected_attr) [] of
        Inl e \<Rightarrow> Inl e
      | Inr tprs \<Rightarrow>
          (let rates = dict_values tprs in
           case py_max rates of Inl e \<Rightarrow> Inl e | Inr max_tpr \<Rightarrow>
           (case py_min rates of Inl e \<Rightarrow> Inl e | Inr min_tpr \<Rightarrow>
              Inr \<lparr> eopp_tprs = tprs,
                    eopp_violation = fsub max_tpr min_tpr,
                    eopp_is_fair = flt (fsub max_tpr min_tpr) (Fin (5 / 100)) \<rparr>)))"

subsection \<open>calibration\<close>





section \<open>Bias detection (bias/detector.py)\<close>

subsection \<open>pandas data frames\<close>

text \<open>
  A cell holds a number or a string, or is missing (\<^verbatim>\<open>NaN\<close>, \<^verbatim>\<open>None\<close>). A column has a
  dtype, of which the code only asks whether it is \<^verbatim>\<open>int\<close> or \<^verbatim>\<open>float\<close>. A data frame
  has a number of rows and named columns (no two of the same name).
\<close>

datatype pyvalue = Num rat | Str string

type_synonym cell = "pyvalue option"

datatype dtype = DInt | DFloat | DOther

record column =
  col_dtype :: dtype
  col_cells :: "cell list"

record dataframe =
  df_len :: nat
  df_columns :: "string \<rightharpoonup> column"

text \<open>\<^verbatim>\<open>Series.unique()\<close>: the distinct cells in order of first appearance, a missing one included.\<close>

definition pd_unique :: "'a list \<Rightarrow> 'a list" where
  "pd_unique xs = rev (remdups (rev xs))"

text \<open>
  \<^verbatim>\<open>Series.value_counts()\<close>: missing cells are dropped; one entry per distinct value with
  the number of its occurrences, largest count first (values of equal count in order of
  first appearance).
\<close>

definition value_counts :: "'a option list \<Rightarrow> ('a, nat) dict" where
  "value_counts cells =
     (let vals = List.map_filter id cells in
      sort_key (\<lambda>kv. - int (snd kv)) (map (\<lambda>v. (v, count_list vals v)) (pd_unique vals)))"

text \<open>\<^verbatim>\<open>Series.max()\<close> and \<^verbatim>\<open>Series.min()\<close>: NaN entries are skipped; NaN when nothing is left.\<close>

definition series_max :: "pyfloat list \<Rightarrow> pyfloat" where
  "series_max xs =
     (case filter (\<lambda>x. x \<noteq> NaN) xs of
        [] \<Rightarrow> NaN
      | y # ys \<Rightarrow> foldl (\<lambda>m x. if fgt x m then x else m) y ys)"

definition series_min :: "pyfloat list \<Rightarrow> pyfloat" where
  "series_min xs =
     (case filter (\<lambda>x. x \<noteq> NaN) xs of
        [] \<Rightarrow> NaN
      | y # ys \<Rightarrow> foldl (\<lambda>m x. if flt x m then x else m) y ys)"

text \<open>
  \<^verbatim>\<open>Series.mean()\<close>: missing cells are skipped, NaN when nothing is left; a string cell
  makes pandas raise \<^verbatim>\<open>TypeError\<close>.
\<close>

fun is_str :: "cell \<Rightarrow> bool" where
  "is_str (Some (Str s)) = True"
| "is_str _ = False"

fun num_of :: "cell \<Rightarrow> rat option" where
  "num_of (Some (Num r)) = Some r"
| "num_of _ = None"

definition series_mean :: "cell list \<Rightarrow> exn + pyfloat" where
  "series_mean cells =
     (if list_ex is_str cells
      then Inl (TypeError ''Could not convert string to numeric'')
      else Inr (np_mean (List.map_filter num_of cells)))"

text \<open>\<^verbatim>\<open>(series == 1).mean()\<close>: the share of the cells that equal 1.\<close>

definition share_equal_one :: "cell list \<Rightarrow> pyfloat" where
  "share_equal_one cells = np_mean (map (\<lambda>c. if c = Some (Num 1) then 1 else 0) cells)"

text \<open>
  \<^verbatim>\<open>data[data[attribute] == group_value][target_column]\<close>: the target cells of the rows
  whose attribute cell equals the value. A missing value equals nothing, itself included.
\<close>

definition group_rows :: "cell list \<Rightarrow> cell \<Rightarrow> cell list \<Rightarrow> cell list" where
  "group_rows attr_cells group_value target_cells =
     map snd (filter (\<lambda>r. group_value \<noteq> None \<and> fst r = group_value) (zip attr_cells target_cells))"

subsection \<open>\_calculate\_representation\_bias\<close>

record rep_bias =
  rb_max_proportion :: pyfloat
  rb_min_proportion :: pyfloat
  rb_disparity_ratio :: pyfloat
  rb_is_balanced :: bool

text \<open>\<^verbatim>\<open>value_counts / total\<close>, entry by entry.\<close>

definition proportions_of :: "('a, nat) dict \<Rightarrow> nat \<Rightarrow> ('a, pyfloat) dict" where
  "proportions_of vc n = map (\<lambda>kv. (fst kv, fdiv (Fin (of_nat (snd kv))) (Fin (of_nat n)))) vc"

definition calculate_representation_bias :: "('a, nat) dict \<Rightarrow> nat \<Rightarrow> rep_bias" where
  "calculate_representation_bias vc n =
     (let proportions = dict_values (proportions_of vc n);
          max_prop = series_max proportions;
          min_prop = series_min proportions in
      \<lparr> rb_max_proportion = max_prop,
        rb_min_proportion = min_prop,
        rb_disparity_ratio = (if fgt min_prop (Fin 0) then fdiv max_prop min_prop else PInf),
        rb_is_balanced =
          (if fgt min_prop (Fin 0) then flt (fdiv max_prop min_prop) (Fin (15 / 10)) else False) \<rparr>)"

subsection \<open>\_calculate\_label\_bias\<close>

record lb_group =
  lb_group_size :: nat
  lb_positive_rate :: "pyfloat option"
  lb_mean_target :: "pyfloat option"

record lb_disparity =
  lb_max_rate :: pyfloat
  lb_min_rate :: pyfloat
  lb_disparity_ratio :: pyfloat

text \<open>The values of the \<^verbatim>\<open>label_bias\<close> dictionary: a group's entry, or the entry under \<^verbatim>\<open>"disparity"\<close>.\<close>

datatype lb_value = LbGroup lb_group | LbDisparity lb_disparity

text \<open>
  The \<^verbatim>\<open>for group_value in data[attribute].unique()\<close> loop. \<open>to_str\<close> is Python's \<^verbatim>\<open>str\<close>
  on the values of the attribute column.
\<close>

fun label_bias_loop ::
  "(pyvalue \<Rightarrow> string) \<Rightarrow> cell list \<Rightarrow> column \<Rightarrow> cell list \<Rightarrow> (string, lb_group) dict
     \<Rightarrow> exn + (string, lb_group) dict" where
  "label_bias_loop to_str attr_cells target [] label_bias = Inr label_bias"
| "label_bias_loop to_str attr_cells target (group_value # rest) label_bias =
     (let group_target = group_rows attr_cells group_value (col_cells target) in
      if length group_target > 0 then
        (let positive_rate =
               (if col_dtype target \<in> {DInt, DFloat} then Some (share_equal_one group_target)
                else None) in
         case (if positive_rate = None then map_sum id Some (series_mean group_target)
               else Inr None) of
           Inl e \<Rightarrow> Inl e
         | Inr mean_target \<Rightarrow>
             label_bias_loop to_str attr_cells target rest
               (AList.update (to_str (the group_value))
                  \<lparr> lb_group_size = length group_target,
                    lb_positive_rate = positive_rate,
                    lb_mean_target = mean_target \<rparr>
                  label_bias))
      else label_bias_loop to_str attr_cells target rest label_bias)"

text \<open>
  \<^verbatim>\<open>v.get("positive_rate") or v.get("mean_target", 0)\<close>: the positive rate when it is
  truthy (neither \<^verbatim>\<open>None\<close> nor zero), else the entry's \<^verbatim>\<open>mean_target\<close>, which is
  \<^verbatim>\<open>None\<close> whenever the positive rate was computed.
\<close>

definition truthy :: "pyfloat option \<Rightarrow> bool" where
  "truthy x = (x \<noteq> None \<and> x \<noteq> Some (Fin 0))"

definition rate_of :: "lb_group \<Rightarrow> pyfloat option" where
  "rate_of v = (if truthy (lb_positive_rate v) then lb_positive_rate v else lb_mean_target v)"

definition calculate_label_bias ::
  "(pyvalue \<Rightarrow> string) \<Rightarrow> dataframe \<Rightarrow> string \<Rightarrow> string \<Rightarrow> exn + (string, lb_value) dict" where
  "calculate_label_bias to_str data attribute target_column =
     (case df_columns data attribute of
        None \<Rightarrow> Inl (KeyError attribute)
      | Some attr_col \<Rightarrow>
     (case df_columns data target_column of
        None \<Rightarrow> Inl (KeyError target_column)
      | Some target \<Rightarrow>
     (case label_bias_loop to_str (col_cells attr_col) target (pd_unique (col_cells attr_col)) [] of
        Inl e \<Rightarrow> Inl e
      | Inr groups \<Rightarrow>
          (let label_bias = map (\<lambda>kv. (fst kv, LbGroup (snd kv))) groups;
               rates = List.map_filter rate_of (dict_values groups) in
           case rates of
             [] \<Rightarrow> Inr label_bias
           | r # rs \<Rightarrow>
               (let max_rate = foldl (\<lambda>m y. if fgt y m then y else m) r rs;
                    min_rate = foldl (\<lambda>m y. if flt y m then y else m) r rs in
                Inr (AList.update ''disparity''
                       (LbDisparity
                          \<lparr> lb_max_rate = max_rate,
                            lb_min_rate = min_rate,
                            lb_disparity_ratio =
                              (if fgt min_rate (Fin 0) then fdiv max_rate min_rate else PInf) \<rparr>)
                       label_bias))))))"

subsection \<open>\_analyze\_attribute\<close>

text \<open>
  The per-attribute analysis. The keys \<^verbatim>\<open>"representation_bias"\<close> and \<^verbatim>\<open>"label_bias"\<close> are
  optional in the dictionaries that \<^verbatim>\<open>_generate_recommendations\<close> reads (it uses
  \<^verbatim>\<open>.get\<close> with a default), so both fields are options; \<^verbatim>\<open>_analyze_attribute\<close> always
  sets the first.
\<close>

record attr_report =
  ar_attribute :: string
  ar_group_distribution :: "(pyvalue, pyfloat) dict"
  ar_group_counts :: "(pyvalue, nat) dict"
  ar_representation_bias :: "rep_bias option"
  ar_label_bias :: "(string, lb_value) dict option"

definition analyze_attribute ::
  "(pyvalue \<Rightarrow> string) \<Rightarrow> dataframe \<Rightarrow> string \<Rightarrow> string option \<Rightarrow> exn + attr_report" where
  "analyze_attribute to_str data attribute target_column =
     (case df_columns data attribute of
        None \<Rightarrow> Inl (KeyError attribute)
      | Some attr_col \<Rightarrow>
          (let vc = value_counts (col_cells attr_col);
               n = df_len data;
               analysis =
                 \<lparr> ar_attribute = attribute,
                   ar_group_distribution = proportions_of vc n,
                   ar_group_counts = vc,
                   ar_representation_bias = Some (calculate_representation_bias vc n),
                   ar_label_bias = None \<rparr> in
           case target_column of
             None \<Rightarrow> Inr analysis
           | Some t \<Rightarrow>
               if t \<noteq> [] \<and> df_columns data t \<noteq> None then
                 (case calculate_label_bias to_str data attribute t of
                    Inl e \<Rightarrow> Inl e
                  | Inr lb \<Rightarrow> Inr (analysis\<lparr> ar_label_bias := Some lb \<rparr>))
               else Inr analysis))"

subsection \<open>\_generate\_recommendations\<close>

definition representation_message :: "string \<Rightarrow> string" where
  "representation_message attr =
     ''High representation disparity detected in '' @ [CHR 0x27] @ attr @ [CHR 0x27] @
     ''. Consider data collection strategies to improve balance.''"

definition label_message :: "string \<Rightarrow> string" where
  "label_message attr =
     ''Label bias detected in '' @ [CHR 0x27] @ attr @ [CHR 0x27] @
     ''. Review labeling process and consider fairness constraints.''"

definition default_message :: string where
  "default_message = ''No significant bias detected. Continue monitoring.''"

text \<open>\<^verbatim>\<open>metrics.get("representation_bias", {}).get("disparity_ratio", 1)\<close>.\<close>

definition representation_ratio :: "attr_report \<Rightarrow> pyfloat" where
  "representation_ratio metrics =
     (case ar_representation_bias metrics of
        None \<Rightarrow> Fin 1
      | Some rep_bias \<Rightarrow> rb_disparity_ratio rep_bias)"

text \<open>
  The label rule: \<^verbatim>\<open>"disparity" in label_bias\<close> and
  \<^verbatim>\<open>label_bias["disparity"].get("disparity_ratio", 1) > 1.5\<close>. An entry under that key
  which is a group's (a group whose name is the word) has no such ratio: the default 1.
\<close>

definition label_rule :: "attr_report \<Rightarrow> bool" where
  "label_rule metrics =
     (case ar_label_bias metrics of
        None \<Rightarrow> False
      | Some label_bias \<Rightarrow>
          (case map_of label_bias ''disparity'' of
             None \<Rightarrow> False
           | Some (LbDisparity disparity) \<Rightarrow> fgt (lb_disparity_ratio disparity) (Fin (15 / 10))
           | Some (LbGroup g) \<Rightarrow> fgt (Fin 1) (Fin (15 / 10))))"

fun recommendations_loop :: "(string, attr_report) dict \<Rightarrow> string list \<Rightarrow> string list" where
  "recommendations_loop [] recommendations = recommendations"
| "recommendations_loop ((attr, metrics) # rest) recommendations =
     (let recommendations1 =
            (if fgt (representation_ratio metrics) (Fin 2)
             then recommendations @ [representation_message attr] else recommendations);
          recommendations2 =
            (if label_rule metrics
             then recommendations1 @ [label_message attr] else recommendations1) in
      recommendations_loop rest recommendations2)"

definition generate_recommendations :: "(string, attr_report) dict \<Rightarrow> string list" where
  "generate_recommendations bias_metrics =
     (let recommendations = recommendations_loop bias_metrics [] in
      if recommendations = [] then recommendations @ [default_message] else recommendations)"

subsection \<open>analyze\<close>

record report =
  rp_dataset_size :: nat
  rp_protected_attributes :: "string list"
  rp_bias_metrics :: "(string, attr_report) dict"
  rp_recommendations :: "string list"

text \<open>The detector object: its one attribute is the history \<^verbatim>\<open>bias_reports\<close>.\<close>

record detector =
  bias_reports :: "report list"

definition init_detector :: detector where
  "init_detector = \<lparr> bias_reports = [] \<rparr>"

definition not_found_message :: "string \<Rightarrow> string" where
  "not_found_message attr =
     ''Protected attribute '' @ [CHR 0x27] @ attr @ [CHR 0x27] @ '' not found in dataset''"

definition empty_message :: string where
  "empty_message = ''protected_attributes cannot be empty''"

text \<open>The \<^verbatim>\<open>for attr in protected_attributes\<close> loop, filling \<^verbatim>\<open>report["bias_metrics"]\<close>.\<close>

fun analyze_loop ::
  "(pyvalue \<Rightarrow> string) \<Rightarrow> dataframe \<Rightarrow> string option \<Rightarrow> string list
     \<Rightarrow> (string, attr_report) dict \<Rightarrow> exn + (string, attr_report) dict" where
  "analyze_loop to_str data target_column [] bias_metrics = Inr bias_metrics"
| "analyze_loop to_str data target_column (attr # rest) bias_metrics =
     (if df_columns data attr = None then Inl (ValueError (not_found_message attr))
      else
        (case analyze_attribute to_str data attr target_column of
           Inl e \<Rightarrow> Inl e
         | Inr attr_report \<Rightarrow>
             analyze_loop to_str data target_column rest
               (AList.update attr attr_report bias_metrics)))"

text \<open>
  \<^verbatim>\<open>analyze\<close> on a detector: the result (the report, or the exception raised) and the
  detector afterwards. The argument \<^verbatim>\<open>data\<close> is a data frame by its type, so the
  \<^verbatim>\<open>isinstance\<close> check has no branch here; \<^verbatim>\<open>sensitive_groups\<close> is not read by the code.
\<close>

definition analyze ::
  "(pyvalue \<Rightarrow> string) \<Rightarrow> detector \<Rightarrow> dataframe \<Rightarrow> string list \<Rightarrow> string option
     \<Rightarrow> (exn + report) \<times> detector" where
  "analyze to_str self data protected_attributes target_column =
     (if protected_attributes = [] then (Inl (ValueError empty_message), self)
      else
        (case analyze_loop to_str data target_column protected_attributes [] of
           Inl e \<Rightarrow> (Inl e, self)
         | Inr bias_metrics \<Rightarrow>
             (let report =
                    \<lparr> rp_dataset_size = df_len data,
                      rp_protected_attributes = protected_attributes,
                      rp_bias_metrics = bias_metrics,
                      rp_recommendations = generate_recommendations bias_metrics \<rparr> in
              (Inr report, self\<lparr> bias_reports := bias_reports self @ [report] \<rparr>))))"

section \<open>Notions used in the statements\<close>



text \<open>Renaming the group values of a column of a frame, and of the keys of its value counts.\<close>

definition rename_key :: "('a \<Rightarrow> 'b) \<Rightarrow> 'a \<times> 'c \<Rightarrow> 'b \<times> 'c" where
  "rename_key f kv = (f (fst kv), snd kv)"

definition rename_values :: "(pyvalue \<Rightarrow> pyvalue) \<Rightarrow> string \<Rightarrow> dataframe \<Rightarrow> dataframe" where
  "rename_values f attribute data =
     (case df_columns data attribute of
        None \<Rightarrow> data
      | Some col \<Rightarrow>
          data\<lparr> df_columns :=
            (df_columns data)(attribute \<mapsto> col\<lparr> col_cells := map (map_option f) (col_cells col) \<rparr>) \<rparr>)"

section \<open>The exceptions of invalid inputs\<close>




section \<open>Example inputs\<close>

text \<open>
  Python's \<^verbatim>\<open>str\<close> on string values is the identity. The examples below have string
  group values only, so the rendering of numbers is left empty here.
\<close>

definition str_value :: "pyvalue \<Rightarrow> string" where
  "str_value v = (case v of Str s \<Rightarrow> s | Num r \<Rightarrow> [])"

text \<open>
  A frame of four rows: groups A, A, B, B; an integer 0/1 target with one positive in
  group A and none in group B; and a column of strings.
\<close>

definition example_frame :: dataframe where
  "example_frame =
     \<lparr> df_len = 4,
       df_columns =
         [''group'' \<mapsto> \<lparr> col_dtype = DOther,
                          col_cells = [Some (Str ''A''), Some (Str ''A''),
                                       Some (Str ''B''), Some (Str ''B'')] \<rparr>,
          ''target'' \<mapsto> \<lparr> col_dtype = DInt,
                           col_cells = [Some (Num 1), Some (Num 0),
                                        Some (Num 0), Some (Num 0)] \<rparr>,
          ''answer'' \<mapsto> \<lparr> col_dtype = DOther,
                           col_cells = [Some (Str ''yes''), Some (Str ''no''),
                                        Some (Str ''no''), Some (Str ''no'')] \<rparr>] \<rparr>"

section \<open>Auxiliary facts\<close>

subsection \<open>Maximum and minimum of finite rates\<close>







subsection \<open>Dictionaries, masks and the group loops\<close>























subsection \<open>Empty and mismatched arrays\<close>

















subsection \<open>Valid arrays\<close>





subsection \<open>Recommendations\<close>


lemma representation_message_inj [simp]:
  "representation_message a = representation_message b \<longleftrightarrow> a = b"
  by (simp add: representation_message_def)

lemma label_message_inj [simp]: "label_message a = label_message b \<longleftrightarrow> a = b"
  by (simp add: label_message_def)

lemma messages_distinct [simp]:
  "representation_message a \<noteq> label_message b"
  "label_message b \<noteq> representation_message a"
  "representation_message a \<noteq> default_message"
  "label_message a \<noteq> default_message"
  by (simp_all add: representation_message_def label_message_def default_message_def)






subsection \<open>Exceptions of the attribute analysis\<close>














subsection \<open>Renaming group values\<close>

lemma map_filter_id_rename:
  "List.map_filter id (map (map_option f) cells) = map f (List.map_filter id cells)"
  by (induction cells) (auto simp: List.map_filter_simps split: option.splits)

lemma remdups_map_inj_on:
  "inj_on f (set xs) \<Longrightarrow> remdups (map f xs) = map f (remdups xs)"
proof (induction xs)
  case Nil
  then show ?case by simp
next
  case (Cons x xs)
  from Cons.prems have inj: "inj_on f (set xs)" by (simp add: inj_on_def)
  from Cons.prems have "f x \<in> f ` set xs \<longleftrightarrow> x \<in> set xs" by (auto simp: inj_on_def)
  with Cons.IH [OF inj] show ?case by simp
qed

lemma pd_unique_map:
  "inj_on f (set xs) \<Longrightarrow> pd_unique (map f xs) = map f (pd_unique xs)"
proof -
  assume inj: "inj_on f (set xs)"
  then have "inj_on f (set (rev xs))" by simp
  then have "remdups (map f (rev xs)) = map f (remdups (rev xs))" by (rule remdups_map_inj_on)
  then have "rev (remdups (rev (map f xs))) = rev (map f (remdups (rev xs)))"
    by (simp only: rev_map)
  then show ?thesis by (simp only: pd_unique_def rev_map)
qed

lemma pd_unique_set: "set (pd_unique xs) = set xs"
  by (simp add: pd_unique_def)

lemma count_list_rename:
  "inj_on f (set xs) \<Longrightarrow> v \<in> set xs \<Longrightarrow> count_list (map f xs) (f v) = count_list xs v"
proof (induction xs)
  case Nil
  then show ?case by simp
next
  case (Cons x xs)
  from Cons.prems(1) have inj: "inj_on f (set xs)" by (simp add: inj_on_def)
  from Cons.prems have eq: "f x = f v \<longleftrightarrow> x = v" by (auto simp: inj_on_def)
  show ?case
  proof (cases "v \<in> set xs")
    case True
    with Cons.IH [OF inj] eq show ?thesis by simp
  next
    case False
    then have "count_list xs v = 0" by (simp add: count_list_0_iff)
    moreover from False Cons.prems have "f v \<notin> f ` set xs" by (auto simp: inj_on_def)
    then have "count_list (map f xs) (f v) = 0" by (simp add: count_list_0_iff)
    ultimately show ?thesis using eq by simp
  qed
qed

lemma insort_key_map:
  "insort_key k (g x) (map g xs) = map g (insort_key (\<lambda>y. k (g y)) x xs)"
  by (induction xs) simp_all

lemma sort_key_map:
  "sort_key k (map g xs) = map g (sort_key (\<lambda>y. k (g y)) xs)"
  by (induction xs) (simp_all add: insort_key_map)

lemma value_counts_rename:
  assumes "inj_on f (set (List.map_filter id cells))"
  shows "value_counts (map (map_option f) cells) = map (rename_key f) (value_counts cells)"
proof -
  let ?vals = "List.map_filter id cells"
  have "map (\<lambda>v. (v, count_list (map f ?vals) v)) (map f (pd_unique ?vals)) =
        map (rename_key f) (map (\<lambda>v. (v, count_list ?vals v)) (pd_unique ?vals))"
    using assms by (simp add: rename_key_def count_list_rename pd_unique_set)
  then have inner: "map (\<lambda>v. (v, count_list (map f ?vals) v)) (pd_unique (map f ?vals)) =
        map (rename_key f) (map (\<lambda>v. (v, count_list ?vals v)) (pd_unique ?vals))"
    using assms by (simp only: pd_unique_map)
  have key: "(\<lambda>y. - int (snd (rename_key f y))) = (\<lambda>kv :: 'a \<times> nat. - int (snd kv))"
    by (simp add: rename_key_def)
  have "value_counts (map (map_option f) cells) =
        sort_key (\<lambda>kv. - int (snd kv))
          (map (\<lambda>v. (v, count_list (map f ?vals) v)) (pd_unique (map f ?vals)))"
    by (simp only: value_counts_def Let_def map_filter_id_rename)
  also have "\<dots> = sort_key (\<lambda>kv. - int (snd kv))
          (map (rename_key f) (map (\<lambda>v. (v, count_list ?vals v)) (pd_unique ?vals)))"
    by (simp only: inner)
  also have "\<dots> = map (rename_key f) (sort_key (\<lambda>kv. - int (snd kv))
          (map (\<lambda>v. (v, count_list ?vals v)) (pd_unique ?vals)))"
    by (simp only: sort_key_map key)
  also have "\<dots> = map (rename_key f) (value_counts cells)"
    by (simp only: value_counts_def Let_def)
  finally show ?thesis .
qed

lemma proportions_rename:
  "dict_values (proportions_of (map (rename_key f) vc) n) = dict_values (proportions_of vc n)"
  by (simp add: proportions_of_def dict_values_def rename_key_def comp_def)

lemma representation_bias_rename:
  "calculate_representation_bias (map (rename_key f) vc) n = calculate_representation_bias vc n"
  by (simp add: calculate_representation_bias_def proportions_rename)

lemma analyze_attribute_no_target:
  "df_columns data attribute = Some col \<Longrightarrow>
   map_sum id ar_representation_bias (analyze_attribute to_str data attribute None) =
     Inr (Some (calculate_representation_bias (value_counts (col_cells col)) (df_len data)))"
  by (simp add: analyze_attribute_def Let_def)

section \<open>Properties of the fairness metrics\<close>

text \<open>
  C8. On predictions \<^verbatim>\<open>[1]*60 + [0]*40\<close> and attribute \<^verbatim>\<open>['A']*50 + ['B']*50\<close>,
  \<^verbatim>\<open>demographic_parity\<close> returns positive rate 1.0 for A and 0.2 for B, violation 0.8,
  parity ratio 5.0 and \<^verbatim>\<open>is_fair = False\<close> (in exact arithmetic).
\<close>

theorem demographic_parity_scenario:
  "demographic_parity (\<lambda>s. s) (replicate 60 1 @ replicate 40 0)
     (replicate 50 ''A'' @ replicate 50 ''B'') =
   Inr \<lparr> dp_positive_rates = [(''A'', Fin 1), (''B'', Fin (2 / 10))],
         dp_parity_ratio = Fin 5,
         dp_violation = Fin (8 / 10),
         dp_is_fair = False \<rparr>"
  by code_simp







text \<open>
  C1. The specification has a group without positive true labels (TP + FN = 0) get TPR 0,
  the calculators returning normally. The guard \<^verbatim>\<open>if (tp + fn) > 0 else 0\<close> is there
  for it, but it is reached only when the group's confusion matrix is 2 by 2. With true
  labels \<^verbatim>\<open>[0, 0, 1, 0]\<close>, the same predictions and groups A, A, B, B, group A holds the
  single value 0: its matrix has one entry, the unpacking into four names raises
  \<^verbatim>\<open>ValueError\<close>, and so do \<^verbatim>\<open>equal_opportunity\<close> and \<^verbatim>\<open>equalized_odds\<close>.
\<close>

theorem tpr_single_class_group_raises:
  "equal_opportunity (\<lambda>s. s) [0, 0, 1, 0] [0, 0, 1, 0] [''A'', ''A'', ''B'', ''B''] =
     Inl (ValueError ''not enough values to unpack (expected 4)'') \<and>
   equalized_odds (\<lambda>s. s) [0, 0, 1, 0] [0, 0, 1, 0] [''A'', ''A'', ''B'', ''B''] =
     Inl (ValueError ''not enough values to unpack (expected 4)'')"
  by code_simp

section \<open>Properties of the bias detector\<close>

text \<open>
  C2. The specification has the label-disparity ratio be the largest per-group positive
  rate over the smallest, infinite when some group's rate is 0. In the code a rate of 0 is
  falsy, so \<^verbatim>\<open>v.get("positive_rate") or v.get("mean_target", 0)\<close> yields the entry's
  \<^verbatim>\<open>mean_target\<close>, which is \<^verbatim>\<open>None\<close>, and the next line drops it. On the example frame
  the rates are 1/2 for A and 0 for B, and the reported maximum, minimum and ratio are
  1/2, 1/2 and 1.
\<close>

theorem label_disparity_drops_zero_rate:
  "calculate_label_bias str_value example_frame ''group'' ''target'' =
   Inr [(''A'', LbGroup \<lparr> lb_group_size = 2, lb_positive_rate = Some (Fin (1 / 2)),
                          lb_mean_target = None \<rparr>),
        (''B'', LbGroup \<lparr> lb_group_size = 2, lb_positive_rate = Some (Fin 0),
                          lb_mean_target = None \<rparr>),
        (''disparity'', LbDisparity \<lparr> lb_max_rate = Fin (1 / 2), lb_min_rate = Fin (1 / 2),
                                      lb_disparity_ratio = Fin 1 \<rparr>)]"
  by code_simp





text \<open>
  C9. Renaming the group values of a protected-attribute column by a function that is
  injective on the values present leaves the representation analysis unchanged: the
  record of \<^verbatim>\<open>_calculate_representation_bias\<close>, with its disparity ratio and balance
  verdict, is the same, also as \<^verbatim>\<open>_analyze_attribute\<close> reports it for the renamed frame.
\<close>

theorem representation_bias_relabeling:
  assumes "inj_on f (set (List.map_filter id cells))"
  shows "calculate_representation_bias (value_counts (map (map_option f) cells)) n =
           calculate_representation_bias (value_counts cells) n \<and>
         (\<forall>data attribute col to_str to_str'.
            df_columns data attribute = Some col \<and> col_cells col = cells \<longrightarrow>
            map_sum id ar_representation_bias
              (analyze_attribute to_str' (rename_values f attribute data) attribute None) =
            map_sum id ar_representation_bias
              (analyze_attribute to_str data attribute None))"
proof (intro conjI allI impI)
  show eq: "calculate_representation_bias (value_counts (map (map_option f) cells)) n =
           calculate_representation_bias (value_counts cells) n" for n
    by (simp only: value_counts_rename [OF assms] representation_bias_rename)
  fix data :: dataframe and attribute col to_str to_str'
  assume h: "df_columns data attribute = Some col \<and> col_cells col = cells"
  then have col: "df_columns data attribute = Some col" and cells: "col_cells col = cells"
    by blast+
  let ?col' = "col\<lparr> col_cells := map (map_option f) (col_cells col) \<rparr>"
  let ?data' = "rename_values f attribute data"
  have col': "df_columns ?data' attribute = Some ?col'" and len: "df_len ?data' = df_len data"
    using col by (simp_all add: rename_values_def)
  show "map_sum id ar_representation_bias (analyze_attribute to_str' ?data' attribute None) =
        map_sum id ar_representation_bias (analyze_attribute to_str data attribute None)"
    unfolding analyze_attribute_no_target [OF col'] analyze_attribute_no_target [OF col] len
    by (simp add: cells eq)
qed

theorem representation_bias_relabeling_witness:
  "calculate_representation_bias
     (value_counts
        (map (map_option (\<lambda>v. case v of Str s \<Rightarrow> Str (CHR ''x'' # s) | Num r \<Rightarrow> Num r))
           [Some (Str ''A''), Some (Str ''B''), None, Some (Str ''A'')])) 4 =
   calculate_representation_bias
     (value_counts [Some (Str ''A''), Some (Str ''B''), None, Some (Str ''A'')]) 4 \<and>
   calculate_representation_bias
     (value_counts [Some (Str ''A''), Some (Str ''B''), None, Some (Str ''A'')]) 4 =
     \<lparr> rb_max_proportion = Fin (1 / 2), rb_min_proportion = Fin (1 / 4),
       rb_disparity_ratio = Fin 2, rb_is_balanced = False \<rparr>"
proof -
  let ?f = "\<lambda>v. case v of Str s \<Rightarrow> Str (CHR ''x'' # s) | Num r \<Rightarrow> Num r"
  let ?cells = "[Some (Str ''A''), Some (Str ''B''), None, Some (Str ''A'')]"
  have inj: "inj_on ?f (set (List.map_filter id ?cells))"
    by (simp add: inj_on_def List.map_filter_simps)
  have val: "calculate_representation_bias (value_counts ?cells) 4 =
     \<lparr> rb_max_proportion = Fin (1 / 2), rb_min_proportion = Fin (1 / 4),
       rb_disparity_ratio = Fin 2, rb_is_balanced = False \<rparr>"
    by code_simp
  from representation_bias_relabeling [OF inj, of 4] val show ?thesis by blast
qed

text \<open>
  C10. A call of \<^verbatim>\<open>analyze\<close> that returns a report leaves the detector with that report
  appended to \<^verbatim>\<open>bias_reports\<close>, and a call that raises leaves the detector as it was.
\<close>

theorem analyze_history:
  "(\<forall>r d'. analyze to_str d data attrs tc = (Inr r, d') \<longrightarrow>
            bias_reports d' = bias_reports d @ [r]) \<and>
   (\<forall>e d'. analyze to_str d data attrs tc = (Inl e, d') \<longrightarrow> d' = d)"
  by (auto simp: analyze_def Let_def split: if_splits sum.splits)

theorem analyze_history_witness:
  "(\<exists>r. analyze str_value init_detector example_frame [''group''] (Some ''target'') =
          (Inr r, \<lparr> bias_reports = [r] \<rparr>)) \<and>
   analyze str_value init_detector example_frame [''missing''] None =
     (Inl (ValueError (not_found_message ''missing'')), init_detector)"
proof -
  let ?ok = "analyze str_value init_detector example_frame [''group''] (Some ''target'')"
  let ?bad = "analyze str_value init_detector example_frame [''missing''] None"
  have "\<not> isl (fst ?ok)" by code_simp
  then obtain r where r: "fst ?ok = Inr r" by (cases "fst ?ok") auto
  then have ok: "?ok = (Inr r, snd ?ok)" by (simp add: prod_eq_iff)
  have "bias_reports (snd ?ok) = bias_reports init_detector @ [r]"
    using analyze_history [of str_value init_detector example_frame "[''group'']" "Some ''target''"] ok
    by blast
  then have "snd ?ok = \<lparr> bias_reports = [r] \<rparr>" by (simp add: init_detector_def)
  with ok have first: "?ok = (Inr r, \<lparr> bias_reports = [r] \<rparr>)" by simp
  have "fst ?bad = Inl (ValueError (not_found_message ''missing''))" by code_simp
  then have bad: "?bad = (Inl (ValueError (not_found_message ''missing'')), snd ?bad)"
    by (simp add: prod_eq_iff)
  then have "snd ?bad = init_detector"
    using analyze_history [of str_value init_detector example_frame "[''missing'']" None]
    by blast
  with bad have "?bad = (Inl (ValueError (not_found_message ''missing'')), init_detector)" by simp
  with first show ?thesis by blast
qed

end
